theory Spec2Isabelle
  imports Complex_Main
begin

section \<open>Scalars and arrays of the wavelet script\<close>

text \<open>
  The script computes with numpy's float64 scalars and one-dimensional float64 arrays.
  A scalar is modelled as a value of \<open>npfloat\<close>: either a finite number, carried as a
  real (so rounding, overflow and underflow of finite arithmetic are abstracted away, except in
  the likelihood, see below, and the two zeros are one), or one of the three special values
  of IEEE arithmetic, which the script
  produces and tests on purpose (\<open>-np.inf\<close>, \<open>np.isinf\<close>) and which numpy computes
  without raising. Every operation follows the IEEE rules on the special values.
\<close>

datatype npfloat = Fin real | PInf | NInf | NaN

datatype error = IndexError | ValueError

fun isinf :: "npfloat \<Rightarrow> bool" where
  "isinf PInf = True"
| "isinf NInf = True"
| "isinf (Fin a) = False"
| "isinf NaN = False"

fun isnan :: "npfloat \<Rightarrow> bool" where
  "isnan NaN = True"
| "isnan (Fin a) = False"
| "isnan PInf = False"
| "isnan NInf = False"

fun isfinite :: "npfloat \<Rightarrow> bool" where
  "isfinite (Fin a) = True"
| "isfinite PInf = False"
| "isfinite NInf = False"
| "isfinite NaN = False"

fun fneg :: "npfloat \<Rightarrow> npfloat" where
  "fneg (Fin a) = Fin (- a)"
| "fneg PInf = NInf"
| "fneg NInf = PInf"
| "fneg NaN = NaN"

fun fabs :: "npfloat \<Rightarrow> npfloat" where
  "fabs (Fin a) = Fin \<bar>a\<bar>"
| "fabs PInf = PInf"
| "fabs NInf = PInf"
| "fabs NaN = NaN"

fun fadd :: "npfloat \<Rightarrow> npfloat \<Rightarrow> npfloat" where
  "fadd (Fin a) (Fin b) = Fin (a + b)"
| "fadd NaN y = NaN"
| "fadd x NaN = NaN"
| "fadd PInf NInf = NaN"
| "fadd NInf PInf = NaN"
| "fadd PInf y = PInf"
| "fadd x PInf = PInf"
| "fadd NInf y = NInf"
| "fadd x NInf = NInf"

definition fsub :: "npfloat \<Rightarrow> npfloat \<Rightarrow> npfloat" where
  "fsub x y = fadd x (fneg y)"

text \<open>The sign of an infinite product or quotient: positive operand keeps, negative flips.\<close>

fun signed_inf :: "bool \<Rightarrow> npfloat" where
  "signed_inf True = PInf"
| "signed_inf False = NInf"

fun fmul :: "npfloat \<Rightarrow> npfloat \<Rightarrow> npfloat" where
  "fmul (Fin a) (Fin b) = Fin (a * b)"
| "fmul NaN y = NaN"
| "fmul x NaN = NaN"
| "fmul PInf PInf = PInf"
| "fmul PInf NInf = NInf"
| "fmul NInf PInf = NInf"
| "fmul NInf NInf = PInf"
| "fmul PInf (Fin b) = (if b = 0 then NaN else signed_inf (0 < b))"
| "fmul NInf (Fin b) = (if b = 0 then NaN else signed_inf (b < 0))"
| "fmul (Fin a) PInf = (if a = 0 then NaN else signed_inf (0 < a))"
| "fmul (Fin a) NInf = (if a = 0 then NaN else signed_inf (a < 0))"

text \<open>
  Division of numpy scalars never raises: a finite non-zero number over zero is an
  infinity, zero over zero is NaN (numpy only warns).
\<close>

fun fdiv :: "npfloat \<Rightarrow> npfloat \<Rightarrow> npfloat" where
  "fdiv (Fin a) (Fin b) =
     (if b = 0 then (if a = 0 then NaN else signed_inf (0 < a)) else Fin (a / b))"
| "fdiv NaN y = NaN"
| "fdiv x NaN = NaN"
| "fdiv (Fin a) PInf = Fin 0"
| "fdiv (Fin a) NInf = Fin 0"
| "fdiv PInf (Fin b) = signed_inf (0 \<le> b)"
| "fdiv NInf (Fin b) = signed_inf (b < 0)"
| "fdiv PInf PInf = NaN"
| "fdiv PInf NInf = NaN"
| "fdiv NInf PInf = NaN"
| "fdiv NInf NInf = NaN"

fun fsqrt :: "npfloat \<Rightarrow> npfloat" where
  "fsqrt (Fin a) = (if a < 0 then NaN else Fin (sqrt a))"
| "fsqrt PInf = PInf"
| "fsqrt NInf = NaN"
| "fsqrt NaN = NaN"

fun fexp :: "npfloat \<Rightarrow> npfloat" where
  "fexp (Fin a) = Fin (exp a)"
| "fexp PInf = PInf"
| "fexp NInf = Fin 0"
| "fexp NaN = NaN"

fun fcos :: "npfloat \<Rightarrow> npfloat" where
  "fcos (Fin a) = Fin (cos a)"
| "fcos PInf = NaN"
| "fcos NInf = NaN"
| "fcos NaN = NaN"

fun flog :: "npfloat \<Rightarrow> npfloat" where
  "flog (Fin a) = (if a < 0 then NaN else if a = 0 then NInf else Fin (ln a))"
| "flog PInf = PInf"
| "flog NInf = NaN"
| "flog NaN = NaN"

text \<open>Comparisons: every comparison with NaN is false.\<close>

fun flt :: "npfloat \<Rightarrow> npfloat \<Rightarrow> bool" where
  "flt (Fin a) (Fin b) = (a < b)"
| "flt NaN y = False"
| "flt x NaN = False"
| "flt PInf y = False"
| "flt x NInf = False"
| "flt NInf y = True"
| "flt x PInf = True"

definition fgt :: "npfloat \<Rightarrow> npfloat \<Rightarrow> bool" where
  "fgt x y = flt y x"

text \<open>\<open>x**2\<close> and \<open>np.square\<close>.\<close>

definition fsquare :: "npfloat \<Rightarrow> npfloat" where
  "fsquare x = fmul x x"

text \<open>
  Arithmetic of two one-dimensional arrays broadcasts: equal lengths combine elementwise, a
  one-element array is stretched, any other pair of lengths raises \<open>ValueError\<close>.
\<close>

definition np_binop ::
  "(npfloat \<Rightarrow> npfloat \<Rightarrow> npfloat) \<Rightarrow> npfloat list \<Rightarrow> npfloat list \<Rightarrow> error + npfloat list" where
  "np_binop f xs ys =
     (if length xs = length ys then Inr (map2 f xs ys)
      else if length xs = 1 then Inr (map (f (hd xs)) ys)
      else if length ys = 1 then Inr (map (\<lambda>x. f x (hd ys)) xs)
      else Inl ValueError)"

subsection \<open>Rounding to float64\<close>

text \<open>
  What is said of the likelihood (zero exactly when, strictly smaller) depends on how float64
  rounds, underflows and overflows, so \<open>get_logL\<close> is modelled with every operation
  rounded to binary64: round to nearest, ties to even, 53 significant bits, smallest exponent
  \<open>-1022\<close> (below it the spacing stays \<open>2^-1074\<close>: gradual underflow, down to 0), and
  overflow to an infinity when the rounded magnitude reaches \<open>2^1024\<close>.
\<close>

definition rne :: "real \<Rightarrow> int" where
  "rne x = (let n = \<lfloor>x\<rfloor>; d = x - of_int n
            in if d < 1 / 2 then n else if 1 / 2 < d then n + 1
               else if even n then n else n + 1)"

definition f64_exponent :: "real \<Rightarrow> int" where
  "f64_exponent x = max \<lfloor>log 2 \<bar>x\<bar>\<rfloor> (- 1022)"

definition round64 :: "real \<Rightarrow> npfloat" where
  "round64 x =
     (if x = 0 then Fin 0
      else let q = 2 powr (of_int (f64_exponent x) - 52);
               y = of_int (rne (x / q)) * q
           in if 2 ^ 1024 \<le> \<bar>y\<bar> then signed_inf (0 < x) else Fin y)"

fun rnd64 :: "npfloat \<Rightarrow> npfloat" where
  "rnd64 (Fin a) = round64 a"
| "rnd64 PInf = PInf"
| "rnd64 NInf = NInf"
| "rnd64 NaN = NaN"

definition add64 :: "npfloat \<Rightarrow> npfloat \<Rightarrow> npfloat" where
  "add64 x y = rnd64 (fadd x y)"

text \<open>
  \<open>np.sum\<close> of a one-dimensional float64 array adds in numpy's pairwise order: fewer than
  8 elements are added one by one from 0; up to 128 elements are added into 8 strided
  accumulators that are then combined as a tree, the leftover elements being added last;
  a longer array is split in two (the first part a multiple of 8) and the two sums are added.
\<close>

definition strided :: "nat \<Rightarrow> npfloat list \<Rightarrow> npfloat list" where
  "strided j xs = map (\<lambda>i. xs ! (8 * i + j)) [0 ..< length xs div 8]"

definition accumulate :: "npfloat list \<Rightarrow> npfloat" where
  "accumulate xs = foldl add64 (hd xs) (tl xs)"

function pairwise_sum :: "npfloat list \<Rightarrow> npfloat" where
  "pairwise_sum xs =
     (if length xs < 8 then foldl add64 (Fin 0) xs
      else if length xs \<le> 128 then
        foldl add64
          (add64 (add64 (add64 (accumulate (strided 0 xs)) (accumulate (strided 1 xs)))
                        (add64 (accumulate (strided 2 xs)) (accumulate (strided 3 xs))))
                 (add64 (add64 (accumulate (strided 4 xs)) (accumulate (strided 5 xs)))
                        (add64 (accumulate (strided 6 xs)) (accumulate (strided 7 xs)))))
          (drop (length xs - length xs mod 8) xs)
      else
        add64 (pairwise_sum (take (length xs div 2 - length xs div 2 mod 8) xs))
              (pairwise_sum (drop (length xs div 2 - length xs div 2 mod 8) xs)))"
  by pat_completeness auto
termination
  by (relation "measure length") auto

declare pairwise_sum.simps [simp del]

definition np_sum :: "npfloat list \<Rightarrow> npfloat" where
  "np_sum xs = add64 (Fin 0) (pairwise_sum xs)"

section \<open>The wavelet, the likelihood and the amplitude prior\<close>

text \<open>The source's array \<open>times\<close> is written \<open>tgrid\<close> (the name is taken in HOL).\<close>

definition time_wavelet ::
  "npfloat list \<Rightarrow> npfloat \<Rightarrow> npfloat \<Rightarrow> npfloat \<Rightarrow> npfloat \<Rightarrow> npfloat \<Rightarrow> npfloat list" where
  "time_wavelet tgrid ctime cfreq amp Q phi0 =
     (let tau = fdiv Q (fmul (fmul (Fin 2) (Fin pi)) cfreq);
          dt = map (\<lambda>t. fsub t ctime) tgrid
      in map (\<lambda>d. fmul (fmul amp (fexp (fdiv (fneg (fsquare d)) (fsquare tau))))
                     (fcos (fadd (fmul (fmul (fmul (Fin 2) (Fin pi)) cfreq) d) phi0))) dt)"

definition get_snr :: "npfloat \<Rightarrow> npfloat \<Rightarrow> npfloat \<Rightarrow> npfloat" where
  "get_snr amp cfreq Q =
     fdiv (fmul amp (fsqrt Q))
          (fsqrt (fmul (fmul (Fin 2) (fsqrt (fmul (Fin pi) (Fin 2)))) cfreq))"

text \<open>
  The likelihood, in float64: the subtraction, the squares, the sum and the product with
  \<open>-0.5\<close> are each rounded.
\<close>

definition get_logL :: "npfloat list \<Rightarrow> npfloat list \<Rightarrow> error + npfloat" where
  "get_logL wavelet_model wavelet_data =
     (case np_binop (\<lambda>d m. rnd64 (fsub d m)) wavelet_data wavelet_model of
        Inl e \<Rightarrow> Inl e
      | Inr res \<Rightarrow>
          Inr (rnd64 (fmul (Fin (- 0.5)) (np_sum (map (\<lambda>x. rnd64 (fsquare x)) res)))))"

definition get_signal_logprior :: "npfloat \<Rightarrow> npfloat \<Rightarrow> npfloat \<Rightarrow> npfloat" where
  "get_signal_logprior amp cfreq Q =
     (let SNR = get_snr amp cfreq Q;
          amp_prior = fdiv (fmul (Fin 3) SNR)
                           (fmul (Fin 4) (fadd (Fin 1) (fdiv SNR (Fin 4))))
      in flog amp_prior)"

section \<open>The bounds filter and the posterior\<close>

text \<open>
  The eccentricity prior \<open>ep.get_logprior\<close> belongs to another module; it is a parameter
  of the model: a function from the three (time, frequency) centroids and the five
  meta-parameters to a log-prior.
\<close>

type_synonym ecc_prior = "(npfloat \<times> npfloat) list \<Rightarrow> npfloat list \<Rightarrow> npfloat"

text \<open>
  The five \<open>for\<close> loops of the filter. Each returns \<open>Some NInf\<close> where the source
  executes \<open>return -np.inf\<close> inside the loop and \<open>None\<close> where the loop runs to its end.
\<close>

fun ts_loop :: "npfloat list \<Rightarrow> npfloat list \<Rightarrow> npfloat option" where
  "ts_loop tgrid [] = None"
| "ts_loop tgrid (t # ts) =
     (if flt t (tgrid ! 0) \<or> fgt t (last tgrid) then Some NInf else ts_loop tgrid ts)"

fun fs_loop :: "npfloat list \<Rightarrow> npfloat \<Rightarrow> npfloat list \<Rightarrow> npfloat option" where
  "fs_loop tgrid dt_inv [] = None"
| "fs_loop tgrid dt_inv (f # fs) =
     (if flt f (fabs (fdiv (Fin 1) (tgrid ! 0))) \<or> fgt f (fdiv dt_inv (Fin 2)) then Some NInf
      else fs_loop tgrid dt_inv fs)"

fun Qs_loop :: "npfloat list \<Rightarrow> npfloat option" where
  "Qs_loop [] = None"
| "Qs_loop (q # Qs) = (if flt q (Fin 1) then Some NInf else Qs_loop Qs)"

fun amps_loop :: "npfloat list \<Rightarrow> npfloat option" where
  "amps_loop [] = None"
| "amps_loop (a # amps) = (if flt a (Fin 0) then Some NInf else amps_loop amps)"

fun phis_loop :: "npfloat list \<Rightarrow> npfloat option" where
  "phis_loop [] = None"
| "phis_loop (phi # phis) =
     (if flt phi (fneg (Fin pi)) \<or> fgt phi (Fin pi) then Some NInf else phis_loop phis)"

text \<open>
  The filter reads the indices 0 to 19 of the parameter vector and the indices 0, 1 and -1 of
  the time grid; a shorter vector or grid raises \<open>IndexError\<close> at the first missing index.
\<close>

definition get_logP_uniform :: "ecc_prior \<Rightarrow> npfloat list \<Rightarrow> npfloat list \<Rightarrow> error + npfloat" where
  "get_logP_uniform ep wavelet_params tgrid =
     (if length wavelet_params < 20 then Inl IndexError
      else
        let ts = [wavelet_params ! 0, wavelet_params ! 5, wavelet_params ! 10];
            fs = [wavelet_params ! 1, wavelet_params ! 6, wavelet_params ! 11];
            amps = [wavelet_params ! 2, wavelet_params ! 7, wavelet_params ! 12];
            Qs = [wavelet_params ! 3, wavelet_params ! 8, wavelet_params ! 13];
            phis = [wavelet_params ! 4, wavelet_params ! 9, wavelet_params ! 14];
            meta_params = [wavelet_params ! 15, wavelet_params ! 16, wavelet_params ! 17,
                           wavelet_params ! 18, wavelet_params ! 19]
        in
          if length tgrid < 2 then Inl IndexError
          else
            let dt_inv = fdiv (Fin 1) (fsub (tgrid ! 1) (tgrid ! 0)) in
            (case ts_loop tgrid ts of Some r \<Rightarrow> Inr r | None \<Rightarrow>
             (case fs_loop tgrid dt_inv fs of Some r \<Rightarrow> Inr r | None \<Rightarrow>
              (case Qs_loop Qs of Some r \<Rightarrow> Inr r | None \<Rightarrow>
               (case amps_loop amps of Some r \<Rightarrow> Inr r | None \<Rightarrow>
                (case phis_loop phis of Some r \<Rightarrow> Inr r | None \<Rightarrow>
                   (let lp = ep [(ts ! 0, fs ! 0), (ts ! 1, fs ! 1), (ts ! 2, fs ! 2)] meta_params
                    in if isinf lp then Inr lp else Inr (Fin 0))))))))"

text \<open>
  The accumulation loop of the posterior. \<open>wavelet_model\<close> starts as the scalar 0, which
  numpy broadcasts over the first wavelet; the model starts from the array of zeros of the
  grid's length, which adds to the same array.
\<close>

fun wavelet_loop ::
  "npfloat list \<Rightarrow> npfloat list \<Rightarrow> npfloat list \<Rightarrow> npfloat list \<Rightarrow> npfloat list \<Rightarrow> npfloat list \<Rightarrow>
   nat list \<Rightarrow> npfloat list \<times> npfloat \<Rightarrow> npfloat list \<times> npfloat" where
  "wavelet_loop tgrid ts fs amps Qs phis [] acc = acc"
| "wavelet_loop tgrid ts fs amps Qs phis (i # is) (wavelet_model, log_sig_prior) =
     wavelet_loop tgrid ts fs amps Qs phis is
       (map2 fadd wavelet_model (time_wavelet tgrid (ts ! i) (fs ! i) (amps ! i) (Qs ! i) (phis ! i)),
        fadd log_sig_prior (get_signal_logprior (amps ! i) (fs ! i) (Qs ! i)))"

definition get_logP ::
  "ecc_prior \<Rightarrow> npfloat list \<Rightarrow> npfloat list \<Rightarrow> npfloat list \<Rightarrow> error + npfloat" where
  "get_logP ep wavelet_params tgrid wavelet_data =
     (case get_logP_uniform ep wavelet_params tgrid of
        Inl e \<Rightarrow> Inl e
      | Inr lp \<Rightarrow>
          if isinf lp then Inr lp
          else
            let ts = [wavelet_params ! 0, wavelet_params ! 5, wavelet_params ! 10];
                fs = [wavelet_params ! 1, wavelet_params ! 6, wavelet_params ! 11];
                amps = [wavelet_params ! 2, wavelet_params ! 7, wavelet_params ! 12];
                Qs = [wavelet_params ! 3, wavelet_params ! 8, wavelet_params ! 13];
                phis = [wavelet_params ! 4, wavelet_params ! 9, wavelet_params ! 14];
                meta_params = [wavelet_params ! 15, wavelet_params ! 16, wavelet_params ! 17,
                               wavelet_params ! 18, wavelet_params ! 19];
                log_ecc = ep [(ts ! 0, fs ! 0), (ts ! 1, fs ! 1), (ts ! 2, fs ! 2)] meta_params;
                (wavelet_model, log_sig_prior) =
                   wavelet_loop tgrid ts fs amps Qs phis [0 ..< length ts]
                     (replicate (length tgrid) (Fin 0), Fin 0)
            in (case get_logL wavelet_model wavelet_data of
                  Inl e \<Rightarrow> Inl e
                | Inr log_like \<Rightarrow> Inr (fadd (fadd log_like log_sig_prior) log_ecc)))"

section \<open>The walker initializer\<close>

text \<open>
  \<open>np.random.randn\<close> reads numpy's global generator. The generator is modelled as an
  infinite sequence of standard-normal draws together with the position of the next one;
  every call consumes the draws it returns. A negative size raises \<open>ValueError\<close>.
  The source's \<open>dim\<close> is written \<open>ndim\<close>.
\<close>

type_synonym rng = "(nat \<Rightarrow> real) \<times> nat"








section \<open>Notions of the specification\<close>

text \<open>
  The quantities the specification names, written from its words; the theorems below compare
  them with what the functions of the script compute.
\<close>


text \<open>The per-wavelet signal-to-noise ratio \<open>A\<cdot>\<surd>Q / \<surd>(2\<cdot>\<surd>(2\<pi>)\<cdot>f0)\<close>.\<close>

definition snr_formula :: "real \<Rightarrow> real \<Rightarrow> real \<Rightarrow> real" where
  "snr_formula A f0 Q = A * sqrt Q / sqrt (2 * sqrt (2 * pi) * f0)"

text \<open>
  The full parameter vector is positional: wavelet \<open>w\<close> (0, 1, 2) occupies the indices
  \<open>5w\<close> to \<open>5w + 4\<close> as (time, frequency, amplitude, quality factor, phase), and the
  meta-parameters the indices 15 to 19.
\<close>

definition wavelet_field :: "nat \<Rightarrow> npfloat list \<Rightarrow> npfloat list" where
  "wavelet_field k wp = map (\<lambda>w. wp ! (5 * w + k)) [0, 1, 2]"

definition centroids :: "npfloat list \<Rightarrow> (npfloat \<times> npfloat) list" where
  "centroids wp = zip (wavelet_field 0 wp) (wavelet_field 1 wp)"

definition meta_of :: "npfloat list \<Rightarrow> npfloat list" where
  "meta_of wp = map (\<lambda>i. wp ! i) [15 ..< 20]"

text \<open>A value lies outside the closed interval from \<open>lo\<close> to \<open>hi\<close>.\<close>

definition outside :: "npfloat \<Rightarrow> npfloat \<Rightarrow> npfloat \<Rightarrow> bool" where
  "outside lo hi x \<longleftrightarrow> flt x lo \<or> flt hi x"

text \<open>The Nyquist frequency \<open>1/(2\<cdot>\<Delta>t)\<close> of the grid, and the lower frequency bound.\<close>

definition nyquist :: "npfloat list \<Rightarrow> npfloat" where
  "nyquist tgrid = fdiv (Fin 1) (fmul (Fin 2) (fsub (tgrid ! 1) (tgrid ! 0)))"

definition lowest_frequency :: "npfloat list \<Rightarrow> npfloat" where
  "lowest_frequency tgrid = fabs (fdiv (Fin 1) (tgrid ! 0))"

text \<open>Some local bound of the filter is violated (the five checks before the prior).\<close>

definition bounds_violated :: "npfloat list \<Rightarrow> npfloat list \<Rightarrow> bool" where
  "bounds_violated wp tgrid \<longleftrightarrow>
     (\<exists>t \<in> set (wavelet_field 0 wp). outside (tgrid ! 0) (last tgrid) t) \<or>
     (\<exists>f \<in> set (wavelet_field 1 wp). outside (lowest_frequency tgrid) (nyquist tgrid) f) \<or>
     (\<exists>q \<in> set (wavelet_field 3 wp). flt q (Fin 1)) \<or>
     (\<exists>a \<in> set (wavelet_field 2 wp). flt a (Fin 0)) \<or>
     (\<exists>p \<in> set (wavelet_field 4 wp). outside (Fin (- pi)) (Fin pi) p)"

text \<open>The composite three-wavelet model and the three signal-amplitude log-priors.\<close>

definition wavelet_of :: "nat \<Rightarrow> npfloat list \<Rightarrow> npfloat list \<Rightarrow> npfloat list" where
  "wavelet_of w wp tgrid =
     time_wavelet tgrid (wp ! (5 * w)) (wp ! (5 * w + 1)) (wp ! (5 * w + 2))
       (wp ! (5 * w + 3)) (wp ! (5 * w + 4))"

definition composite_model :: "npfloat list \<Rightarrow> npfloat list \<Rightarrow> npfloat list" where
  "composite_model wp tgrid =
     map2 fadd (map2 fadd (wavelet_of 0 wp tgrid) (wavelet_of 1 wp tgrid)) (wavelet_of 2 wp tgrid)"

definition signal_prior_of :: "nat \<Rightarrow> npfloat list \<Rightarrow> npfloat" where
  "signal_prior_of w wp =
     get_signal_logprior (wp ! (5 * w + 2)) (wp ! (5 * w + 1)) (wp ! (5 * w + 3))"


definition draws_block :: "rng \<Rightarrow> nat \<Rightarrow> npfloat list" where
  "draws_block r k = map (\<lambda>i. Fin (fst r (k + i))) [0 ..< 20]"






text \<open>
  A worked example: a grid of three samples with spacing 1 (so the frequency range is
  \<open>[0.25, 0.5]\<close>), a parameter vector the filter accepts, a constant eccentricity prior,
  a generator whose draws are all \<open>-0.1\<close>, and as data the noise-free model of the
  candidate these draws give.
\<close>

definition example_grid :: "npfloat list" where
  "example_grid = map Fin [4, 5, 6]"

definition example_params :: "npfloat list" where
  "example_params = map Fin [5, 0.4, 1, 2, 0,  5, 0.4, 1, 2, 0,  5, 0.4, 1, 2, 0,  0, 0, 0, 0, 0]"

definition example_prior :: ecc_prior where
  "example_prior cs m = Fin 0"




section \<open>The likelihood evaluator\<close>











































section \<open>The wavelet model\<close>

text \<open>
  Claim C5. For a time grid and finite scalars with \<open>f0 > 0\<close> and \<open>Q \<ge> 1\<close>,
  \<open>time_wavelet\<close> returns a sequence of the grid's length whose element at the grid time
  \<open>t\<close> is \<open>A \<cdot> exp(-(t - t0)\<^sup>2/\<tau>\<^sup>2) \<cdot> cos(2\<pi> f0 (t - t0) + \<phi>)\<close> with
  \<open>\<tau> = Q/(2\<pi> f0)\<close>. The function is a pure function of its arguments.
\<close>

theorem time_wavelet_formula:
  assumes "0 < f0" and "1 \<le> Q"
  shows "length (time_wavelet (map Fin ts) (Fin t0) (Fin f0) (Fin A) (Fin Q) (Fin phi)) = length ts \<and>
         (\<forall>i < length ts.
            time_wavelet (map Fin ts) (Fin t0) (Fin f0) (Fin A) (Fin Q) (Fin phi) ! i =
            Fin (A * exp (- ((ts ! i - t0)\<^sup>2) / (Q / (2 * pi * f0))\<^sup>2)
                   * cos (2 * pi * f0 * (ts ! i - t0) + phi)))"
  using assms by (simp add: time_wavelet_def fsquare_def fsub_def power2_eq_square)

theorem time_wavelet_formula_witness:
  "(0::real) < 1 \<and> (1::real) \<le> 2 \<and>
   length (time_wavelet (map Fin [0, 1]) (Fin 0) (Fin 1) (Fin 3) (Fin 2) (Fin 0)) = length [0, 1::real] \<and>
   time_wavelet (map Fin [0, 1]) (Fin 0) (Fin 1) (Fin 3) (Fin 2) (Fin 0) ! 0 = Fin 3"
  using time_wavelet_formula [of 1 2 "[0, 1]" 0 3 0] by simp

section \<open>The signal amplitude prior\<close>

lemma get_snr_Fin:
  assumes "0 < f0" and "0 \<le> Q"
  shows "get_snr (Fin A) (Fin f0) (Fin Q) = Fin (snr_formula A f0 Q)"
proof -
  have "0 < 2 * sqrt (pi * 2) * f0"
    using assms by simp
  then have "\<not> 2 * sqrt (pi * 2) * f0 < 0" and "sqrt (2 * sqrt (pi * 2) * f0) \<noteq> 0"
    using real_sqrt_gt_zero [of "2 * sqrt (pi * 2) * f0"] by linarith+
  then have "get_snr (Fin A) (Fin f0) (Fin Q) = Fin (A * sqrt Q / sqrt (2 * sqrt (pi * 2) * f0))"
    using assms unfolding get_snr_def
    by (simp only: fmul.simps fsqrt.simps fdiv.simps if_False not_less [symmetric]) simp
  then show ?thesis
    by (simp add: snr_formula_def mult.commute [of pi 2])
qed

lemma get_signal_logprior_Fin:
  assumes "get_snr amp cfreq Q = Fin s"
  shows "get_signal_logprior amp cfreq Q =
           (if s = - 4 then (if s = 0 then NaN else flog (signed_inf (0 < 3 * s)))
            else flog (Fin (3 * s / (4 * (1 + s / 4)))))"
  using assms by (simp add: get_signal_logprior_def Let_def)

text \<open>
  Claim C6. For a finite amplitude \<open>A > 0\<close>, frequency \<open>f0 > 0\<close> and quality factor
  \<open>Q \<ge> 1\<close>, \<open>get_snr\<close> returns \<open>SNR = A\<cdot>\<surd>Q / \<surd>(2\<cdot>\<surd>(2\<pi>)\<cdot>f0)\<close> and
  \<open>get_signal_logprior\<close> returns \<open>log(3\<cdot>SNR / (4\<cdot>(1 + SNR/4)))\<close>.
\<close>

theorem get_signal_logprior_formula:
  assumes "0 < A" and "0 < f0" and "1 \<le> Q"
  shows "get_snr (Fin A) (Fin f0) (Fin Q) = Fin (snr_formula A f0 Q) \<and>
         get_signal_logprior (Fin A) (Fin f0) (Fin Q) =
           Fin (ln (3 * snr_formula A f0 Q / (4 * (1 + snr_formula A f0 Q / 4))))"
proof -
  let ?s = "snr_formula A f0 Q"
  have s: "get_snr (Fin A) (Fin f0) (Fin Q) = Fin ?s"
    using assms by (simp add: get_snr_Fin)
  have pos: "0 < ?s"
    using assms by (simp add: snr_formula_def)
  then have r: "0 < 3 * ?s / (4 * (1 + ?s / 4))"
    by (simp add: field_simps)
  have "get_signal_logprior (Fin A) (Fin f0) (Fin Q) = flog (Fin (3 * ?s / (4 * (1 + ?s / 4))))"
    using pos by (simp add: get_signal_logprior_Fin [OF s])
  also have "\<dots> = Fin (ln (3 * ?s / (4 * (1 + ?s / 4))))"
    using r by (simp only: flog.simps) auto
  finally show ?thesis using s by simp
qed

theorem get_signal_logprior_formula_witness:
  "(0::real) < 50 \<and> (0::real) < 1 \<and> (1::real) \<le> 2 \<and>
   get_snr (Fin 50) (Fin 1) (Fin 2) = Fin (snr_formula 50 1 2) \<and>
   get_signal_logprior (Fin 50) (Fin 1) (Fin 2) =
     Fin (ln (3 * snr_formula 50 1 2 / (4 * (1 + snr_formula 50 1 2 / 4))))"
  using get_signal_logprior_formula [of 50 1 2] by simp

lemma snr_unit_frequency: "snr_formula A (1 / (2 * sqrt (2 * pi))) 1 = A"
  by (simp add: snr_formula_def)

lemma get_snr_unit_frequency: "get_snr (Fin A) (Fin (1 / (2 * sqrt (2 * pi)))) (Fin 1) = Fin A"
  using get_snr_Fin [of "1 / (2 * sqrt (2 * pi))" 1 A] by (simp add: snr_unit_frequency)

lemma snr_minus_100: "snr_formula (- 100) 1 1 < - 4"
proof -
  have "2 * pi < 4\<^sup>2" using pi_less_4 by simp
  then have "sqrt (2 * pi) < 4" by (intro real_less_lsqrt) simp_all
  then have "2 * sqrt (2 * pi) < 25\<^sup>2" by simp
  then have a: "sqrt (2 * sqrt (2 * pi)) < 25" by (intro real_less_lsqrt) simp_all
  have b: "0 < sqrt (2 * sqrt (2 * pi))" by simp
  have "4 * sqrt (2 * sqrt (2 * pi)) < 100" using a by simp
  then have "4 < 100 / sqrt (2 * sqrt (2 * pi))"
    using b by (simp add: pos_less_divide_eq del: real_sqrt_gt_0_iff)
  then show ?thesis by (simp add: snr_formula_def)
qed

text \<open>
  Claim C8, as the code has it. \<open>get_signal_logprior\<close> never raises. It returns
  \<open>-inf\<close> when the signal-to-noise ratio is 0, and NaN when the ratio lies in
  \<open>[-4, 0)\<close> or is \<open>-inf\<close>; below \<open>-4\<close> numerator and denominator of the
  amplitude prior are both negative, and the function returns the finite logarithm
  \<open>log(3\<cdot>SNR / (4\<cdot>(1 + SNR/4)))\<close>.
\<close>

theorem get_signal_logprior_nonpositive_snr:
  "(get_snr amp cfreq Q = Fin 0 \<longrightarrow> get_signal_logprior amp cfreq Q = NInf) \<and>
   (get_snr amp cfreq Q = Fin s \<and> - 4 \<le> s \<and> s < 0 \<longrightarrow> get_signal_logprior amp cfreq Q = NaN) \<and>
   (get_snr amp cfreq Q = NInf \<longrightarrow> get_signal_logprior amp cfreq Q = NaN) \<and>
   (get_snr amp cfreq Q = Fin s \<and> s < - 4 \<longrightarrow>
      get_signal_logprior amp cfreq Q = Fin (ln (3 * s / (4 * (1 + s / 4)))))"
proof (intro conjI impI)
  assume "get_snr amp cfreq Q = Fin 0"
  then show "get_signal_logprior amp cfreq Q = NInf"
    by (simp add: get_signal_logprior_Fin)
next
  assume a: "get_snr amp cfreq Q = Fin s \<and> - 4 \<le> s \<and> s < 0"
  show "get_signal_logprior amp cfreq Q = NaN"
  proof (cases "s = - 4")
    case True
    with a show ?thesis by (simp add: get_signal_logprior_Fin)
  next
    case False
    with a have "3 * s / (4 * (1 + s / 4)) < 0"
      by (simp add: field_simps)
    with a False show ?thesis by (simp add: get_signal_logprior_Fin)
  qed
next
  assume "get_snr amp cfreq Q = NInf"
  then show "get_signal_logprior amp cfreq Q = NaN"
    by (simp add: get_signal_logprior_def)
next
  assume a: "get_snr amp cfreq Q = Fin s \<and> s < - 4"
  then have "0 < 3 * s / (4 * (1 + s / 4))"
    by (simp add: field_simps zero_less_divide_iff)
  with a show "get_signal_logprior amp cfreq Q = Fin (ln (3 * s / (4 * (1 + s / 4))))"
    by (simp add: get_signal_logprior_Fin)
qed

theorem get_signal_logprior_nonpositive_snr_witness:
  "get_snr (Fin 0) (Fin (1 / (2 * sqrt (2 * pi)))) (Fin 1) = Fin 0 \<and>
   get_signal_logprior (Fin 0) (Fin (1 / (2 * sqrt (2 * pi)))) (Fin 1) = NInf \<and>
   get_snr (Fin (- 1)) (Fin (1 / (2 * sqrt (2 * pi)))) (Fin 1) = Fin (- 1) \<and>
   get_signal_logprior (Fin (- 1)) (Fin (1 / (2 * sqrt (2 * pi)))) (Fin 1) = NaN \<and>
   get_snr (Fin (- 8)) (Fin (1 / (2 * sqrt (2 * pi)))) (Fin 1) = Fin (- 8) \<and>
   get_signal_logprior (Fin (- 8)) (Fin (1 / (2 * sqrt (2 * pi)))) (Fin 1) = Fin (ln 6) \<and>
   get_snr NInf (Fin 1) (Fin 1) = NInf \<and>
   get_signal_logprior NInf (Fin 1) (Fin 1) = NaN"
  using get_signal_logprior_nonpositive_snr [of "Fin 0" "Fin (1 / (2 * sqrt (2 * pi)))" "Fin 1" 0]
    get_signal_logprior_nonpositive_snr [of "Fin (- 1)" "Fin (1 / (2 * sqrt (2 * pi)))" "Fin 1" "- 1"]
    get_signal_logprior_nonpositive_snr [of "Fin (- 8)" "Fin (1 / (2 * sqrt (2 * pi)))" "Fin 1" "- 8"]
    get_signal_logprior_nonpositive_snr [of NInf "Fin 1" "Fin 1" 0]
  by (simp add: get_snr_unit_frequency) (simp add: get_snr_def)

text \<open>
  The claim as the specification states it (NaN for every negative ratio) fails: at
  \<open>A = -100\<close>, \<open>f0 = 1\<close>, \<open>Q = 1\<close> the ratio is negative (about \<open>-44.7\<close>) and
  the result is a finite number.
\<close>

theorem get_signal_logprior_negative_snr_counterexample:
  "flt (get_snr (Fin (- 100)) (Fin 1) (Fin 1)) (Fin 0) \<and>
   get_signal_logprior (Fin (- 100)) (Fin 1) (Fin 1) \<noteq> NaN"
proof -
  have s: "get_snr (Fin (- 100)) (Fin 1) (Fin 1) = Fin (snr_formula (- 100) 1 1)"
    by (simp add: get_snr_Fin)
  have lt: "snr_formula (- 100) 1 1 < - 4" by (rule snr_minus_100)
  then have "0 < 3 * snr_formula (- 100) 1 1 / (4 * (1 + snr_formula (- 100) 1 1 / 4))"
    by (simp add: field_simps zero_less_divide_iff)
  with s lt show ?thesis
    by (simp add: get_signal_logprior_Fin)
qed

section \<open>The bounds filter\<close>

lemma ts_loop_char:
  "ts_loop tgrid ts = (if \<exists>t \<in> set ts. outside (tgrid ! 0) (last tgrid) t then Some NInf else None)"
  by (induction ts) (auto simp: outside_def fgt_def)

lemma nyquist_code: "fdiv (fdiv (Fin 1) d) (Fin 2) = fdiv (Fin 1) (fmul (Fin 2) d)"
  by (cases d) auto

lemma fs_loop_char:
  "fs_loop tgrid (fdiv (Fin 1) (fsub (tgrid ! 1) (tgrid ! 0))) fs =
     (if \<exists>f \<in> set fs. outside (lowest_frequency tgrid) (nyquist tgrid) f then Some NInf else None)"
  by (induction fs) (auto simp: outside_def fgt_def lowest_frequency_def nyquist_def nyquist_code)

lemma Qs_loop_char: "Qs_loop Qs = (if \<exists>q \<in> set Qs. flt q (Fin 1) then Some NInf else None)"
  by (induction Qs) auto

lemma amps_loop_char: "amps_loop amps = (if \<exists>a \<in> set amps. flt a (Fin 0) then Some NInf else None)"
  by (induction amps) auto

lemma phis_loop_char:
  "phis_loop phis = (if \<exists>p \<in> set phis. outside (Fin (- pi)) (Fin pi) p then Some NInf else None)"
  by (induction phis) (auto simp: outside_def fgt_def)

lemma upt_15_20: "[15 ..< 20] = [15, 16, 17, 18, 19::nat]"
  by (simp add: upt_rec)

lemma wavelet_field_list:
  "wavelet_field k wp = [wp ! k, wp ! (5 + k), wp ! (10 + k)]"
  by (simp add: wavelet_field_def)

lemma centroids_list:
  "centroids wp = [(wp ! 0, wp ! 1), (wp ! 5, wp ! 6), (wp ! 10, wp ! 11)]"
  by (simp add: centroids_def wavelet_field_list)

lemma meta_of_list: "meta_of wp = [wp ! 15, wp ! 16, wp ! 17, wp ! 18, wp ! 19]"
  by (simp add: meta_of_def upt_15_20)


lemma loop_case:
  "(case (if c then Some NInf else None) of Some r \<Rightarrow> Inr r | None \<Rightarrow> X) =
   (if c then Inr NInf else (X :: error + npfloat))"
  by simp

lemma get_logP_uniform_unfold:
  assumes "20 \<le> length wp" and "2 \<le> length tgrid"
  shows "get_logP_uniform ep wp tgrid =
    (if \<exists>t \<in> set (wavelet_field 0 wp). outside (tgrid ! 0) (last tgrid) t then Inr NInf
     else if \<exists>f \<in> set (wavelet_field 1 wp). outside (lowest_frequency tgrid) (nyquist tgrid) f
       then Inr NInf
     else if \<exists>q \<in> set (wavelet_field 3 wp). flt q (Fin 1) then Inr NInf
     else if \<exists>a \<in> set (wavelet_field 2 wp). flt a (Fin 0) then Inr NInf
     else if \<exists>p \<in> set (wavelet_field 4 wp). outside (Fin (- pi)) (Fin pi) p then Inr NInf
     else if isinf (ep (centroids wp) (meta_of wp)) then Inr (ep (centroids wp) (meta_of wp))
     else Inr (Fin 0))"
proof -
  have a: "\<not> length wp < 20" and b: "\<not> length tgrid < 2"
    using assms by simp_all
  have n: "[x, y, z] ! 0 = x" "[x, y, z] ! 1 = y" "[x, y, z] ! 2 = z" for x y z :: npfloat
    by simp_all
  have w: "wavelet_field 0 wp = [wp ! 0, wp ! 5, wp ! 10]"
    "wavelet_field 1 wp = [wp ! 1, wp ! 6, wp ! 11]"
    "wavelet_field 2 wp = [wp ! 2, wp ! 7, wp ! 12]"
    "wavelet_field 3 wp = [wp ! 3, wp ! 8, wp ! 13]"
    "wavelet_field 4 wp = [wp ! 4, wp ! 9, wp ! 14]"
    by (simp_all add: wavelet_field_list)
  show ?thesis
    unfolding get_logP_uniform_def Let_def w centroids_list meta_of_list
      ts_loop_char fs_loop_char Qs_loop_char amps_loop_char phis_loop_char loop_case n
    by (simp only: a b if_False)
qed

lemma nested_if:
  "(if a then Inr NInf else if b then Inr NInf else if c then Inr NInf else if d then Inr NInf
    else if e then Inr NInf else if i then Inr l else Inr z) =
   (Inr (if a \<or> b \<or> c \<or> d \<or> e then NInf else if i then l else z) :: error + npfloat)"
  by simp

lemma get_logP_uniform_char:
  assumes "20 \<le> length wp" and "2 \<le> length tgrid"
  shows "get_logP_uniform ep wp tgrid =
           Inr (if bounds_violated wp tgrid then NInf
                else if isinf (ep (centroids wp) (meta_of wp)) then ep (centroids wp) (meta_of wp)
                else Fin 0)"
  unfolding get_logP_uniform_unfold [OF assms] bounds_violated_def
  by (rule nested_if)


lemma get_logP_uniform_IndexError:
  "length wp < 20 \<or> length tgrid < 2 \<Longrightarrow> get_logP_uniform ep wp tgrid = Inl IndexError"
proof (cases "length wp < 20")
  case True
  then show ?thesis by (simp only: get_logP_uniform_def if_True)
next
  case False
  moreover assume "length wp < 20 \<or> length tgrid < 2"
  ultimately have "length tgrid < 2" by simp
  with False show ?thesis by (simp only: get_logP_uniform_def Let_def if_True if_False)
qed

text \<open>
  Claim C3. For a 20-element parameter vector and a time grid (of at least two samples, which
  the filter indexes), and an eccentricity prior that does not return \<open>+inf\<close> (a log-prior
  is finite or \<open>-inf\<close>), \<open>get_logP_uniform\<close> returns only \<open>-inf\<close> or 0: \<open>-inf\<close>
  when a centroid time lies outside \<open>[times[0], times[-1]]\<close>, a frequency lies outside
  \<open>[|1/times[0]|, 1/(2\<Delta>t)]\<close>, a quality factor is below 1, an amplitude is below 0, a
  phase lies outside \<open>[-\<pi>, \<pi>]\<close>, or the eccentricity prior is infinite; 0 otherwise. A
  failing local bound decides the result before the prior is consulted: the result is then
  \<open>-inf\<close> whatever the prior.
\<close>

theorem get_logP_uniform_spec:
  assumes "length wp = 20" and "2 \<le> length tgrid"
    and "ep (centroids wp) (meta_of wp) \<noteq> PInf"
  shows "get_logP_uniform ep wp tgrid =
           Inr (if bounds_violated wp tgrid \<or> isinf (ep (centroids wp) (meta_of wp))
                then NInf else Fin 0) \<and>
         (bounds_violated wp tgrid \<longrightarrow> (\<forall>ep'. get_logP_uniform ep' wp tgrid = Inr NInf))"
proof -
  have "isinf (ep (centroids wp) (meta_of wp)) \<Longrightarrow> ep (centroids wp) (meta_of wp) = NInf"
    using assms(3) by (cases "ep (centroids wp) (meta_of wp)") simp_all
  then show ?thesis
    using assms(1,2) by (auto simp: get_logP_uniform_char)
qed


lemma example_lengths: "length example_params = 20" "length example_grid = 3"
  by (simp_all add: example_params_def example_grid_def)

lemma example_bounds: "\<not> bounds_violated example_params example_grid"
  unfolding bounds_violated_def wavelet_field_list
  by (simp add: example_params_def example_grid_def outside_def lowest_frequency_def
      nyquist_def fsub_def)

lemma example_valid: "get_logP_uniform example_prior example_params example_grid = Inr (Fin 0)"
  using example_bounds
  by (simp add: get_logP_uniform_char example_lengths example_prior_def)

section \<open>The posterior evaluator\<close>

lemma fadd_zero_left: "fadd (Fin 0) x = x"
  by (cases x) simp_all

lemma map2_fadd_zeros: "length w = n \<Longrightarrow> map2 fadd (replicate n (Fin 0)) w = w"
  by (induction w arbitrary: n) (auto simp: fadd_zero_left)

lemma length_time_wavelet: "length (time_wavelet tgrid t f a q p) = length tgrid"
  by (simp add: time_wavelet_def)

lemma upt_0_3: "[0 ..< length [x, y, z]] = [0, 1, 2]"
  by (simp add: upt_rec)

lemma get_logP_short_circuit:
  "get_logP_uniform ep wp tgrid = Inr lp \<Longrightarrow> isinf lp \<Longrightarrow> get_logP ep wp tgrid data = Inr lp"
  by (simp only: get_logP_def sum.case if_True)

lemma get_logP_raises:
  "get_logP_uniform ep wp tgrid = Inl e \<Longrightarrow> get_logP ep wp tgrid data = Inl e"
  by (simp only: get_logP_def sum.case)

lemma get_logP_unfold:
  assumes "get_logP_uniform ep wp tgrid = Inr lp" and "\<not> isinf lp"
  shows "get_logP ep wp tgrid data =
           (case get_logL (composite_model wp tgrid) data of
              Inl e \<Rightarrow> Inl e
            | Inr ll \<Rightarrow>
                Inr (fadd (fadd ll (fadd (fadd (signal_prior_of 0 wp) (signal_prior_of 1 wp))
                                        (signal_prior_of 2 wp)))
                          (ep (centroids wp) (meta_of wp))))"
proof -
  let ?ts = "[wp ! 0, wp ! 5, wp ! 10]" and ?fs = "[wp ! 1, wp ! 6, wp ! 11]"
  let ?amps = "[wp ! 2, wp ! 7, wp ! 12]" and ?Qs = "[wp ! 3, wp ! 8, wp ! 13]"
  let ?phis = "[wp ! 4, wp ! 9, wp ! 14]"
  have w0: "map2 fadd (replicate (length tgrid) (Fin 0)) (time_wavelet tgrid t f a q p) =
      time_wavelet tgrid t f a q p" for t f a q p
    by (rule map2_fadd_zeros) (rule length_time_wavelet)
  have wv: "wavelet_of 0 wp tgrid = time_wavelet tgrid (wp ! 0) (wp ! 1) (wp ! 2) (wp ! 3) (wp ! 4)"
    "wavelet_of 1 wp tgrid = time_wavelet tgrid (wp ! 5) (wp ! 6) (wp ! 7) (wp ! 8) (wp ! 9)"
    "wavelet_of 2 wp tgrid = time_wavelet tgrid (wp ! 10) (wp ! 11) (wp ! 12) (wp ! 13) (wp ! 14)"
    by (simp_all add: wavelet_of_def numeral_2_eq_2)
  have sp: "signal_prior_of 0 wp = get_signal_logprior (wp ! 2) (wp ! 1) (wp ! 3)"
    "signal_prior_of 1 wp = get_signal_logprior (wp ! 7) (wp ! 6) (wp ! 8)"
    "signal_prior_of 2 wp = get_signal_logprior (wp ! 12) (wp ! 11) (wp ! 13)"
    by (simp_all add: signal_prior_of_def numeral_2_eq_2)
  have n: "[x, y, z] ! 0 = x" "[x, y, z] ! 1 = y" "[x, y, z] ! 2 = z" for x y z :: npfloat
    by simp_all
  have loop: "wavelet_loop tgrid ?ts ?fs ?amps ?Qs ?phis [0 ..< length ?ts]
                (replicate (length tgrid) (Fin 0), Fin 0) =
              (composite_model wp tgrid,
               fadd (fadd (signal_prior_of 0 wp) (signal_prior_of 1 wp)) (signal_prior_of 2 wp))"
    unfolding upt_0_3 composite_model_def wv sp
    by (simp only: wavelet_loop.simps n fadd_zero_left w0)
  show ?thesis
    unfolding get_logP_def assms(1) sum.case Let_def loop
    using assms(2) by (simp only: if_False prod.case n centroids_list meta_of_list)
qed

text \<open>
  Claim C1. For a 20-element parameter vector on which the filter returns a value, and an
  eccentricity prior that does not return \<open>+inf\<close>: if \<open>get_logP_uniform\<close> returns
  \<open>-inf\<close> then \<open>get_logP\<close> returns \<open>-inf\<close> whatever the data (also data on which the
  likelihood would raise: nothing else is computed); otherwise it returns the sum of the
  log-likelihood of the composite three-wavelet model against the data, the three signal
  amplitude log-priors and the eccentricity log-prior, the likelihood being defined for data
  of the grid's length.
\<close>

theorem get_logP_spec:
  assumes "length wp = 20" and "get_logP_uniform ep wp tgrid = Inr lp"
    and "ep (centroids wp) (meta_of wp) \<noteq> PInf"
  shows "(lp = NInf \<longrightarrow> (\<forall>data'. get_logP ep wp tgrid data' = Inr NInf)) \<and>
         (lp \<noteq> NInf \<longrightarrow>
            get_logP ep wp tgrid data =
              (case get_logL (composite_model wp tgrid) data of
                 Inl e \<Rightarrow> Inl e
               | Inr ll \<Rightarrow>
                   Inr (fadd (fadd ll (fadd (fadd (signal_prior_of 0 wp) (signal_prior_of 1 wp))
                                           (signal_prior_of 2 wp)))
                             (ep (centroids wp) (meta_of wp))))) \<and>
         (length data = length tgrid \<longrightarrow>
            (\<exists>ll. get_logL (composite_model wp tgrid) data = Inr ll))"
proof (intro conjI impI allI)
  fix data'
  assume "lp = NInf"
  with assms(2) show "get_logP ep wp tgrid data' = Inr NInf"
    using get_logP_short_circuit [of ep wp tgrid NInf data'] by simp
next
  assume ne: "lp \<noteq> NInf"
  have len: "2 \<le> length tgrid"
    using assms(2) get_logP_uniform_IndexError [of wp tgrid ep] by (cases "length tgrid < 2") simp_all
  have "lp = Fin 0"
    using assms ne len
    by (cases "ep (centroids wp) (meta_of wp)")
       (simp_all add: get_logP_uniform_char split: if_splits)
  then have "\<not> isinf lp" by simp
  then show "get_logP ep wp tgrid data =
              (case get_logL (composite_model wp tgrid) data of
                 Inl e \<Rightarrow> Inl e
               | Inr ll \<Rightarrow>
                   Inr (fadd (fadd ll (fadd (fadd (signal_prior_of 0 wp) (signal_prior_of 1 wp))
                                           (signal_prior_of 2 wp)))
                             (ep (centroids wp) (meta_of wp))))"
    by (rule get_logP_unfold [OF assms(2)])
next
  assume "length data = length tgrid"
  then have "length data = length (composite_model wp tgrid)"
    by (simp add: composite_model_def wavelet_of_def length_time_wavelet)
  then show "\<exists>ll. get_logL (composite_model wp tgrid) data = Inr ll"
    by (simp add: get_logL_def np_binop_def)
qed


lemma example_bad_time: "bounds_violated (example_params[0 := Fin 7]) example_grid"
  unfolding bounds_violated_def wavelet_field_list
  by (simp add: example_params_def example_grid_def outside_def)

theorem get_logP_uniform_spec_witness:
  "length example_params = 20 \<and> 2 \<le> length example_grid \<and>
   example_prior (centroids example_params) (meta_of example_params) \<noteq> PInf \<and>
   get_logP_uniform example_prior example_params example_grid = Inr (Fin 0) \<and>
   length (example_params[0 := Fin 7]) = 20 \<and>
   bounds_violated (example_params[0 := Fin 7]) example_grid \<and>
   get_logP_uniform (\<lambda>cs m. PInf) (example_params[0 := Fin 7]) example_grid = Inr NInf"
  using get_logP_uniform_spec [of example_params example_grid example_prior]
    get_logP_uniform_spec [of "example_params[0 := Fin 7]" example_grid example_prior]
    example_bounds example_bad_time
  by (simp add: example_lengths example_prior_def)

theorem get_logP_spec_witness:
  "length example_params = 20 \<and>
   get_logP_uniform example_prior example_params example_grid = Inr (Fin 0) \<and>
   example_prior (centroids example_params) (meta_of example_params) \<noteq> PInf \<and>
   length (map Fin [0, 0, 0]) = length example_grid \<and>
   (\<exists>ll. get_logL (composite_model example_params example_grid) (map Fin [0, 0, 0]) = Inr ll \<and>
      get_logP example_prior example_params example_grid (map Fin [0, 0, 0]) =
        Inr (fadd (fadd ll (fadd (fadd (signal_prior_of 0 example_params)
                                      (signal_prior_of 1 example_params))
                                (signal_prior_of 2 example_params)))
                  (example_prior (centroids example_params) (meta_of example_params)))) \<and>
   get_logP_uniform example_prior (example_params[0 := Fin 7]) example_grid = Inr NInf \<and>
   get_logP example_prior (example_params[0 := Fin 7]) example_grid [] = Inr NInf"
proof -
  have bad: "get_logP_uniform example_prior (example_params[0 := Fin 7]) example_grid = Inr NInf"
    using example_bad_time by (simp add: get_logP_uniform_char example_lengths)
  have p: "example_prior (centroids (example_params[0 := Fin 7]))
             (meta_of (example_params[0 := Fin 7])) \<noteq> PInf"
    by (simp add: example_prior_def)
  show ?thesis
    using get_logP_spec [of example_params example_prior example_grid "Fin 0" "map Fin [0, 0, 0]"]
      get_logP_spec [of "example_params[0 := Fin 7]" example_prior example_grid NInf, OF _ bad p]
      example_valid bad
    by (auto simp: example_lengths example_prior_def)
qed

section \<open>The Nyquist bound\<close>

lemma flt_irrefl: "\<not> flt x x"
  by (cases x) simp_all

lemma flt_between: "\<not> flt f lo \<Longrightarrow> \<not> flt hi f \<Longrightarrow> \<not> isnan f \<Longrightarrow> \<not> flt hi lo"
  by (cases f; cases lo; cases hi) simp_all

lemma frequency_update:
  assumes "length wp = 20" and "k \<in> {1, 6, 11}"
  shows "wavelet_field 0 (wp[k := v]) = wavelet_field 0 wp"
    and "wavelet_field 2 (wp[k := v]) = wavelet_field 2 wp"
    and "wavelet_field 3 (wp[k := v]) = wavelet_field 3 wp"
    and "wavelet_field 4 (wp[k := v]) = wavelet_field 4 wp"
    and "meta_of (wp[k := v]) = meta_of wp"
    and "set (wavelet_field 1 (wp[k := v])) \<subseteq> insert v (set (wavelet_field 1 wp))"
  using assms by (auto simp: wavelet_field_list meta_of_list nth_list_update)

text \<open>
  Claim C7. The upper frequency bound is inclusive. In a vector the filter accepts, setting a
  wavelet's frequency to exactly the Nyquist frequency \<open>1/(2\<Delta>t)\<close> keeps it accepted (as
  long as the eccentricity prior stays finite on the new centroids), while any frequency
  strictly greater than \<open>1/(2\<Delta>t)\<close> makes the filter return \<open>-inf\<close>.
\<close>

theorem nyquist_inclusive:
  assumes "length wp = 20" and "2 \<le> length tgrid" and "k \<in> {1, 6, 11}"
  shows "(get_logP_uniform ep wp tgrid = Inr (Fin 0) \<and> \<not> isnan (wp ! k) \<and>
          \<not> isinf (ep (centroids (wp[k := nyquist tgrid])) (meta_of wp)) \<longrightarrow>
            get_logP_uniform ep (wp[k := nyquist tgrid]) tgrid = Inr (Fin 0)) \<and>
         (flt (nyquist tgrid) (wp ! k) \<longrightarrow> get_logP_uniform ep wp tgrid = Inr NInf)"
proof (intro conjI impI)
  assume a: "get_logP_uniform ep wp tgrid = Inr (Fin 0) \<and> \<not> isnan (wp ! k) \<and>
          \<not> isinf (ep (centroids (wp[k := nyquist tgrid])) (meta_of wp))"
  let ?wp = "wp[k := nyquist tgrid]"
  have nv: "\<not> bounds_violated wp tgrid"
    using a assms(1,2) by (simp add: get_logP_uniform_char split: if_splits)
  have fk: "wp ! k \<in> set (wavelet_field 1 wp)"
    using assms(3) by (auto simp: wavelet_field_list)
  with nv have "\<not> outside (lowest_frequency tgrid) (nyquist tgrid) (wp ! k)"
    by (auto simp: bounds_violated_def)
  then have "\<not> outside (lowest_frequency tgrid) (nyquist tgrid) (nyquist tgrid)"
    using a flt_between [of "wp ! k" "lowest_frequency tgrid" "nyquist tgrid"]
    by (simp add: outside_def flt_irrefl)
  then have "\<not> bounds_violated ?wp tgrid"
    using nv frequency_update [OF assms(1,3), of "nyquist tgrid"]
    unfolding bounds_violated_def by auto
  then show "get_logP_uniform ep ?wp tgrid = Inr (Fin 0)"
    using a assms(1,2) frequency_update(5) [OF assms(1,3), of "nyquist tgrid"]
    by (simp add: get_logP_uniform_char)
next
  assume "flt (nyquist tgrid) (wp ! k)"
  moreover have "wp ! k \<in> set (wavelet_field 1 wp)"
    using assms(3) by (auto simp: wavelet_field_list)
  ultimately have "bounds_violated wp tgrid"
    unfolding bounds_violated_def outside_def by blast
  then show "get_logP_uniform ep wp tgrid = Inr NInf"
    using assms(1,2) by (simp add: get_logP_uniform_char)
qed

lemma example_nyquist: "nyquist example_grid = Fin 0.5"
  by (simp add: nyquist_def example_grid_def fsub_def)

theorem nyquist_inclusive_witness:
  "length example_params = 20 \<and> 2 \<le> length example_grid \<and> (1::nat) \<in> {1, 6, 11} \<and>
   nyquist example_grid = Fin 0.5 \<and>
   get_logP_uniform example_prior example_params example_grid = Inr (Fin 0) \<and>
   \<not> isnan (example_params ! 1) \<and>
   \<not> isinf (example_prior (centroids (example_params[1 := nyquist example_grid]))
              (meta_of example_params)) \<and>
   get_logP_uniform example_prior (example_params[1 := nyquist example_grid]) example_grid =
     Inr (Fin 0) \<and>
   length (example_params[1 := Fin 0.75]) = 20 \<and>
   flt (nyquist example_grid) (example_params[1 := Fin 0.75] ! 1) \<and>
   get_logP_uniform example_prior (example_params[1 := Fin 0.75]) example_grid = Inr NInf"
proof -
  have a: "\<not> isnan (example_params ! 1)"
    by (simp add: example_params_def)
  have b: "\<not> isinf (example_prior (centroids (example_params[1 := nyquist example_grid]))
              (meta_of example_params))"
    by (simp add: example_prior_def)
  have c: "flt (nyquist example_grid) (example_params[1 := Fin 0.75] ! 1)"
    by (simp add: example_nyquist example_params_def)
  show ?thesis
    using nyquist_inclusive [of example_params example_grid 1 example_prior]
      nyquist_inclusive [of "example_params[1 := Fin 0.75]" example_grid 1 example_prior]
      example_valid a b c
    by (simp add: example_lengths example_nyquist)
qed

section \<open>A grid that starts at 0, and short grids\<close>

lemma fs_finite_at_zero:
  assumes "tgrid ! 0 = Fin 0" and "\<forall>f \<in> set (wavelet_field 1 wp). isfinite f"
  shows "bounds_violated wp tgrid"
proof -
  have lo: "lowest_frequency tgrid = PInf"
    using assms(1) by (simp add: lowest_frequency_def)
  have "wp ! 1 \<in> set (wavelet_field 1 wp)"
    by (simp add: wavelet_field_list)
  with assms(2) have "isfinite (wp ! 1)" by blast
  then have "flt (wp ! 1) PInf" by (cases "wp ! 1") simp_all
  then have "\<exists>f \<in> set (wavelet_field 1 wp). outside (lowest_frequency tgrid) (nyquist tgrid) f"
    unfolding lo outside_def wavelet_field_list by simp
  then show ?thesis by (simp add: bounds_violated_def)
qed

text \<open>
  Claim C10. When the first grid time is 0, the lower frequency bound
  \<open>abs(1/times[0])\<close> is \<open>+inf\<close> (the division does not raise), so every 20-element vector
  with finite frequencies fails the lower-bound check: \<open>get_logP_uniform\<close> and
  \<open>get_logP\<close> return \<open>-inf\<close>. The filter presupposes a grid of at least two samples
  (a shorter grid raises \<open>IndexError\<close>) whose first two samples differ (for equal samples
  the grid-spacing division is a division by zero: it gives \<open>+inf\<close>, and so does the
  Nyquist bound).
\<close>

theorem zero_grid_start:
  assumes "length wp = 20"
  shows "(2 \<le> length tgrid \<and> tgrid ! 0 = Fin 0 \<and> (\<forall>f \<in> set (wavelet_field 1 wp). isfinite f) \<longrightarrow>
            fabs (fdiv (Fin 1) (tgrid ! 0)) = PInf \<and>
            get_logP_uniform ep wp tgrid = Inr NInf \<and>
            get_logP ep wp tgrid wavelet_data = Inr NInf) \<and>
         (length tgrid < 2 \<longrightarrow>
            get_logP_uniform ep wp tgrid = Inl IndexError \<and>
            get_logP ep wp tgrid wavelet_data = Inl IndexError) \<and>
         (2 \<le> length tgrid \<and> isfinite (tgrid ! 0) \<and> tgrid ! 1 = tgrid ! 0 \<longrightarrow>
            fdiv (Fin 1) (fsub (tgrid ! 1) (tgrid ! 0)) = PInf \<and> nyquist tgrid = PInf)"
proof (intro conjI impI)
  assume a: "2 \<le> length tgrid \<and> tgrid ! 0 = Fin 0 \<and> (\<forall>f \<in> set (wavelet_field 1 wp). isfinite f)"
  then show "fabs (fdiv (Fin 1) (tgrid ! 0)) = PInf" by simp
  have "bounds_violated wp tgrid"
    using a by (simp add: fs_finite_at_zero)
  then show u: "get_logP_uniform ep wp tgrid = Inr NInf"
    using a assms by (simp add: get_logP_uniform_char)
  show "get_logP ep wp tgrid wavelet_data = Inr NInf"
    by (rule get_logP_short_circuit [OF u]) simp
next
  assume "length tgrid < 2"
  then show u: "get_logP_uniform ep wp tgrid = Inl IndexError"
    by (simp add: get_logP_uniform_IndexError)
  show "get_logP ep wp tgrid wavelet_data = Inl IndexError"
    by (rule get_logP_raises [OF u])
next
  assume a: "2 \<le> length tgrid \<and> isfinite (tgrid ! 0) \<and> tgrid ! 1 = tgrid ! 0"
  then show "fdiv (Fin 1) (fsub (tgrid ! 1) (tgrid ! 0)) = PInf"
    by (cases "tgrid ! 0") (simp_all add: fsub_def)
  from a show "nyquist tgrid = PInf"
    by (cases "tgrid ! 0") (simp_all add: fsub_def nyquist_def)
qed

theorem zero_grid_start_witness:
  "length example_params = 20 \<and> 2 \<le> length (map Fin [0, 1, 2]) \<and> map Fin [0, 1, 2] ! 0 = Fin 0 \<and>
   fabs (fdiv (Fin 1) (map Fin [0, 1, 2] ! 0)) = PInf \<and>
   get_logP_uniform example_prior example_params (map Fin [0, 1, 2]) = Inr NInf \<and>
   get_logP example_prior example_params (map Fin [0, 1, 2]) (map Fin [0, 0, 0]) = Inr NInf \<and>
   length [Fin 0] < 2 \<and>
   get_logP_uniform example_prior example_params [Fin 0] = Inl IndexError \<and>
   2 \<le> length (map Fin [3, 3]) \<and> isfinite (map Fin [3, 3] ! 0) \<and>
   map Fin [3, 3] ! 1 = map Fin [3, 3] ! 0 \<and>
   nyquist (map Fin [3, 3]) = PInf"
proof -
  have "\<forall>f \<in> set (wavelet_field 1 example_params). isfinite f"
    by (simp add: wavelet_field_list example_params_def)
  then show ?thesis
    using zero_grid_start [of example_params "map Fin [0, 1, 2]" example_prior "map Fin [0, 0, 0]"]
      zero_grid_start [of example_params "[Fin 0]" example_prior "[]"]
      zero_grid_start [of example_params "map Fin [3, 3]" example_prior "[]"]
    by (simp add: example_lengths)
qed

section \<open>Candidates and the resampling loop\<close>




lemma draws_block_fst: "fst r' = fst r \<Longrightarrow> draws_block r' k = draws_block r k"
  by (simp add: draws_block_def)






















section \<open>When the resampling loop ends\<close>









section \<open>A candidate with a NaN log-posterior\<close>













section \<open>Finite inputs give a finite log-posterior\<close>













section \<open>Worked examples of the initializer\<close>









section \<open>A generator whose first candidate is rejected\<close>







section \<open>The population returned by the initializer\<close>






section \<open>NaN passes the acceptance test\<close>





end
